theory Spec2Isabelle
  imports Main "HOL-Library.Sublist"
begin

section \<open>The MQTT-to-MySQL relay of \<^verbatim>\<open>subscriber_main.py\<close>\<close>

text \<open>
  The module subscribes to an MQTT broker and copies every message on a topic below
  \<^verbatim>\<open>roverCommsLog/\<close> into one row of the table \<^verbatim>\<open>mqtt_data_log\<close>. The functions of the
  module are embedded as HOL functions over an explicit state. What the module does not
  decide itself (whether a call into the MySQL connector or into the MQTT client raises,
  the database server's clock) is an input of the model: a record of outcomes, one field
  per call site.

  A Python \<^verbatim>\<open>str\<close> is represented by its UTF-8 encoding, a \<^typ>\<open>string\<close> of bytes. The
  module only compares a \<^verbatim>\<open>str\<close> with an ASCII literal, tests it for emptiness, slices it
  behind an ASCII prefix it has just matched, and concatenates; on these operations the
  encoding and the sequence of code points agree.
\<close>

subsection \<open>Exceptions\<close>

text \<open>
  An instance of a subclass of \<^verbatim>\<open>Exception\<close>: the class name and \<^verbatim>\<open>str(e)\<close>. These are
  the exceptions an \<^verbatim>\<open>except Exception\<close> clause catches. \<^verbatim>\<open>SystemExit\<close>, raised by
  \<^verbatim>\<open>exit(1)\<close>, derives from \<^verbatim>\<open>BaseException\<close> only and passes through such a clause.
\<close>

datatype pyerror = PyError (cls: string) (str_e: string)

datatype exn = Error pyerror | SystemExit int

subsection \<open>Logging\<close>

datatype level = DEBUG | INFO | WARNING | ERROR

fun levelno :: "level \<Rightarrow> nat" where
  "levelno DEBUG = 10"
| "levelno INFO = 20"
| "levelno WARNING = 30"
| "levelno ERROR = 40"

subsection \<open>Configuration and constants\<close>

record globals =
  MQTT_HOST :: string
  MQTT_PORT :: int
  MQTT_TOPIC :: string
  DB_HOST :: string
  DB_NAME :: string
  DB_USER :: string
  DB_PASS :: string

definition TARGET_DB_TABLE :: string where
  "TARGET_DB_TABLE = ''mqtt_data_log''"

definition TOPIC_PREFIX :: string where
  "TOPIC_PREFIX = ''roverCommsLog/''"

subsection \<open>State\<close>

text \<open>
  A row of \<^verbatim>\<open>mqtt_data_log\<close>: \<^verbatim>\<open>device_id\<close>, \<^verbatim>\<open>value_payload\<close>, \<^verbatim>\<open>mqtt_topic\<close> and
  \<^verbatim>\<open>received_at\<close>, the value of the server's \<^verbatim>\<open>NOW()\<close>.
\<close>

type_synonym row = "string \<times> string \<times> string \<times> nat"

text \<open>The calls the module makes into the MySQL connector and the MQTT client.\<close>

datatype call =
    Pool_create string string string string
  | Get_connection
  | Cursor
  | Execute string "string \<times> string \<times> string"
  | Commit
  | Rollback
  | Is_connected
  | Cursor_close
  | Conn_close
  | Mqtt_Client
  | Mqtt_connect string int int
  | Subscribe string
  | Loop_forever

text \<open>
  \<open>DB_POOL\<close> is the module's global: \<open>None\<close> before \<^verbatim>\<open>setup_db_pool\<close>, afterwards the
  number of idle connections in the pool's queue. \<open>logged\<close> lists the calls of the logger,
  \<open>table\<close> the committed rows of \<^verbatim>\<open>mqtt_data_log\<close>, \<open>calls\<close> the library calls made so
  far, each in order.
\<close>

record state =
  DB_POOL :: "nat option"
  logged :: "(level \<times> string) list"
  table :: "row list"
  calls :: "call list"

text \<open>
  A call of the logger: the level and the formatted message. The traceback that
  \<^verbatim>\<open>exc_info=True\<close> appends to the output is not part of the message.
\<close>

definition logger :: "level \<Rightarrow> string \<Rightarrow> state \<Rightarrow> state" where
  "logger l m s = s\<lparr>logged := logged s @ [(l, m)]\<rparr>"

text \<open>
  \<^verbatim>\<open>logging.basicConfig(level=logging.INFO, ...)\<close>: the root handler writes the records
  whose level is at least \<^verbatim>\<open>INFO\<close>.
\<close>

definition emitted :: "state \<Rightarrow> (level \<times> string) list" where
  "emitted s = filter (\<lambda>(l, m). levelno INFO \<le> levelno l) (logged s)"

definition called :: "call \<Rightarrow> state \<Rightarrow> state" where
  "called c s = s\<lparr>calls := calls s @ [c]\<rparr>"

subsection \<open>Decoding the payload\<close>

text \<open>
  \<^verbatim>\<open>bytes.decode('utf-8')\<close> with the default error handler \<^verbatim>\<open>strict\<close> accepts exactly the
  well-formed UTF-8 byte sequences (no overlong forms, no surrogates, nothing above
  U+10FFFF) and raises \<^verbatim>\<open>UnicodeDecodeError\<close> on every other input. \<open>seq_len\<close> is the length
  of the well-formed sequence at the head of the bytes, 0 if there is none. \<open>quoted x\<close> is
  \<open>x\<close> between apostrophes.
\<close>

definition cont_byte :: "nat \<Rightarrow> bool" where
  "cont_byte b \<longleftrightarrow> 128 \<le> b \<and> b \<le> 191"

definition second3 :: "nat \<Rightarrow> nat \<Rightarrow> bool" where
  "second3 a b \<longleftrightarrow>
     (if a = 224 then 160 \<le> b \<and> b \<le> 191
      else if a = 237 then 128 \<le> b \<and> b \<le> 159
      else cont_byte b)"

definition second4 :: "nat \<Rightarrow> nat \<Rightarrow> bool" where
  "second4 a b \<longleftrightarrow>
     (if a = 240 then 144 \<le> b \<and> b \<le> 191
      else if a = 244 then 128 \<le> b \<and> b \<le> 143
      else cont_byte b)"

fun seq_len :: "nat list \<Rightarrow> nat" where
  "seq_len [] = 0"
| "seq_len (a # r) =
     (if a < 128 then 1
      else if 194 \<le> a \<and> a \<le> 223 then
        (case r of b # _ \<Rightarrow> if cont_byte b then 2 else 0 | _ \<Rightarrow> 0)
      else if 224 \<le> a \<and> a \<le> 239 then
        (case r of b # c # _ \<Rightarrow> if second3 a b \<and> cont_byte c then 3 else 0 | _ \<Rightarrow> 0)
      else if 240 \<le> a \<and> a \<le> 244 then
        (case r of b # c # d # _ \<Rightarrow>
           if second4 a b \<and> cont_byte c \<and> cont_byte d then 4 else 0 | _ \<Rightarrow> 0)
      else 0)"

text \<open>
  Where the strict decoder stops, it reports the range of the bytes it rejects and one of
  three reasons: the number of bytes of the range and the reason, for input that starts
  with an ill-formed sequence.
\<close>

fun utf8_error :: "nat list \<Rightarrow> nat \<times> string" where
  "utf8_error [] = (0, [])"
| "utf8_error (a # r) =
     (if a < 194 \<or> 244 < a then (1, ''invalid start byte'')
      else if a \<le> 223 then
        (case r of
           [] \<Rightarrow> (1, ''unexpected end of data'')
         | b # _ \<Rightarrow> (1, ''invalid continuation byte''))
      else if a \<le> 239 then
        (case r of
           [] \<Rightarrow> (1, ''unexpected end of data'')
         | [b] \<Rightarrow>
             if second3 a b then (2, ''unexpected end of data'')
             else (1, ''invalid continuation byte'')
         | b # c # _ \<Rightarrow>
             if second3 a b then (2, ''invalid continuation byte'')
             else (1, ''invalid continuation byte''))
      else
        (case r of
           [] \<Rightarrow> (1, ''unexpected end of data'')
         | [b] \<Rightarrow>
             if second4 a b then (2, ''unexpected end of data'')
             else (1, ''invalid continuation byte'')
         | [b, c] \<Rightarrow>
             if \<not> second4 a b then (1, ''invalid continuation byte'')
             else if cont_byte c then (3, ''unexpected end of data'')
             else (2, ''invalid continuation byte'')
         | b # c # d # _ \<Rightarrow>
             if \<not> second4 a b then (1, ''invalid continuation byte'')
             else if \<not> cont_byte c then (2, ''invalid continuation byte'')
             else (3, ''invalid continuation byte'')))"

text \<open>
  The scan of the bytes from position \<open>pos\<close>: \<open>None\<close> when all of them are well formed,
  otherwise the position of the first ill-formed sequence, its first byte, and what
  \<open>utf8_error\<close> says about it.
\<close>

function utf8_scan :: "nat \<Rightarrow> nat list \<Rightarrow> (nat \<times> nat \<times> nat \<times> string) option" where
  "utf8_scan pos bs =
     (if bs = [] then None
      else if seq_len bs = 0 then Some (pos, hd bs, utf8_error bs)
      else utf8_scan (pos + seq_len bs) (drop (seq_len bs) bs))"
  by pat_completeness auto
termination
  by (relation "measure (\<lambda>(pos, bs). length bs)") auto

text \<open>\<^verbatim>\<open>str\<close> of a natural number, and a byte as two hexadecimal digits.\<close>

function str_nat :: "nat \<Rightarrow> string" where
  "str_nat n =
     (if n < 10 then [''0123456789'' ! n]
      else str_nat (n div 10) @ [''0123456789'' ! (n mod 10)])"
  by pat_completeness auto
termination
  by (relation "measure id") auto

definition hex2 :: "nat \<Rightarrow> string" where
  "hex2 b = [''0123456789abcdef'' ! (b div 16), ''0123456789abcdef'' ! (b mod 16)]"

definition quoted :: "string \<Rightarrow> string" where
  "quoted x = CHR 0x27 # x @ [CHR 0x27]"

text \<open>\<^verbatim>\<open>str(e)\<close> of the \<^verbatim>\<open>UnicodeDecodeError\<close>.\<close>

definition decode_error_text :: "nat \<times> nat \<times> nat \<times> string \<Rightarrow> string" where
  "decode_error_text err =
     (case err of (start, byte, width, reason) \<Rightarrow>
        quoted ''utf-8'' @ '' codec can'' @ [CHR 0x27] @ ''t decode ''
        @ (if width = 1 then ''byte 0x'' @ hex2 byte @ '' in position '' @ str_nat start
           else ''bytes in position '' @ str_nat start @ ''-'' @ str_nat (start + width - 1))
        @ '': '' @ reason)"

definition decode_utf8 :: "string \<Rightarrow> pyerror + string" where
  "decode_utf8 payload =
     (case utf8_scan 0 (map of_char payload) of
        None \<Rightarrow> Inr payload
      | Some err \<Rightarrow> Inl (PyError ''UnicodeDecodeError'' (decode_error_text err)))"

subsection \<open>The connection pool and the connection\<close>

text \<open>
  What the MySQL connector does at the calls \<^verbatim>\<open>insert_data\<close> makes, for one invocation.
  A field \<open>Some e\<close> says that the call raises \<open>e\<close>; \<open>is_connected\<close> is the answer of
  \<^verbatim>\<open>conn.is_connected()\<close>; \<open>now\<close> is the server's \<^verbatim>\<open>NOW()\<close>. The connector raises
  subclasses of \<^verbatim>\<open>Exception\<close> only.
\<close>

record db_env =
  get_connection_err :: "pyerror option"
  cursor_err :: "pyerror option"
  execute_err :: "pyerror option"
  commit_err :: "pyerror option"
  rollback_err :: "pyerror option"
  is_connected :: bool
  cursor_close_err :: "pyerror option"
  close_err :: "pyerror option"
  now :: nat

text \<open>
  \<^verbatim>\<open>DB_POOL.get_connection()\<close>. While \<open>DB_POOL\<close> is still \<^verbatim>\<open>None\<close> the attribute lookup
  raises \<^verbatim>\<open>AttributeError\<close>. A pool whose queue is empty raises \<^verbatim>\<open>PoolError\<close>. Otherwise
  the pool takes a connection from the queue; if reconnecting it fails the pool puts it
  back and raises.
\<close>

definition get_connection :: "db_env \<Rightarrow> state \<Rightarrow> (pyerror + unit) \<times> state" where
  "get_connection env s =
     (case DB_POOL s of
        None \<Rightarrow>
          (Inl (PyError ''AttributeError''
                  (quoted ''NoneType'' @ '' object has no attribute '' @ quoted ''get_connection'')), s)
      | Some n \<Rightarrow>
          (let s1 = called Get_connection s in
           if n = 0 then
             (Inl (PyError ''PoolError'' ''Failed getting connection; pool exhausted''), s1)
           else
             (case get_connection_err env of
                Some e \<Rightarrow> (Inl e, s1)
              | None \<Rightarrow> (Inr (), s1\<lparr>DB_POOL := Some (n - 1)\<rparr>))))"

definition conn_cursor :: "db_env \<Rightarrow> state \<Rightarrow> (pyerror + unit) \<times> state" where
  "conn_cursor env s =
     (let s1 = called Cursor s in
      case cursor_err env of Some e \<Rightarrow> (Inl e, s1) | None \<Rightarrow> (Inr (), s1))"

definition cursor_execute ::
  "db_env \<Rightarrow> string \<Rightarrow> string \<times> string \<times> string \<Rightarrow> state \<Rightarrow> (pyerror + unit) \<times> state" where
  "cursor_execute env tbl params s =
     (let s1 = called (Execute tbl params) s in
      case execute_err env of Some e \<Rightarrow> (Inl e, s1) | None \<Rightarrow> (Inr (), s1))"

text \<open>
  \<^verbatim>\<open>conn.commit()\<close>: when it returns, the row of the executed \<^verbatim>\<open>INSERT\<close> is in the table,
  with the server's time in \<^verbatim>\<open>received_at\<close>.
\<close>

definition conn_commit ::
  "db_env \<Rightarrow> string \<times> string \<times> string \<Rightarrow> state \<Rightarrow> (pyerror + unit) \<times> state" where
  "conn_commit env params s =
     (let s1 = called Commit s in
      case commit_err env of
        Some e \<Rightarrow> (Inl e, s1)
      | None \<Rightarrow>
          (case params of (d, v, t) \<Rightarrow>
             (Inr (), s1\<lparr>table := table s1 @ [(d, v, t, now env)]\<rparr>)))"

definition conn_rollback :: "db_env \<Rightarrow> state \<Rightarrow> (pyerror + unit) \<times> state" where
  "conn_rollback env s =
     (let s1 = called Rollback s in
      case rollback_err env of Some e \<Rightarrow> (Inl e, s1) | None \<Rightarrow> (Inr (), s1))"

definition cursor_close :: "db_env \<Rightarrow> state \<Rightarrow> (pyerror + unit) \<times> state" where
  "cursor_close env s =
     (let s1 = called Cursor_close s in
      case cursor_close_err env of Some e \<Rightarrow> (Inl e, s1) | None \<Rightarrow> (Inr (), s1))"

text \<open>
  \<^verbatim>\<open>conn.close()\<close> on a pooled connection puts the connection back into the pool's queue,
  also when resetting its session raises.
\<close>

definition conn_close :: "db_env \<Rightarrow> state \<Rightarrow> (pyerror + unit) \<times> state" where
  "conn_close env s =
     (let s1 = (called Conn_close s)\<lparr>DB_POOL := map_option Suc (DB_POOL s)\<rparr> in
      case close_err env of Some e \<Rightarrow> (Inl e, s1) | None \<Rightarrow> (Inr (), s1))"

subsection \<open>\<^verbatim>\<open>insert_data\<close>\<close>

text \<open>
  The local variables of \<^verbatim>\<open>insert_data\<close> that its \<^verbatim>\<open>except\<close> and \<^verbatim>\<open>finally\<close> clauses
  read: \<open>conn\<close> is false while the variable is \<^verbatim>\<open>None\<close>, \<open>cursor\<close> is false while the
  variable is unbound.
\<close>

record frame =
  conn :: bool
  cursor :: bool

text \<open>The body of the \<^verbatim>\<open>try\<close>, with the frame as it is when the body is left.\<close>

definition insert_try ::
  "db_env \<Rightarrow> string \<Rightarrow> string \<Rightarrow> string \<Rightarrow> state \<Rightarrow> (pyerror + unit) \<times> frame \<times> state" where
  "insert_try env device_id value full_topic s =
     (case get_connection env s of
        (Inl e, s1) \<Rightarrow> (Inl e, \<lparr>conn = False, cursor = False\<rparr>, s1)
      | (Inr _, s1) \<Rightarrow>
     (case conn_cursor env s1 of
        (Inl e, s2) \<Rightarrow> (Inl e, \<lparr>conn = True, cursor = False\<rparr>, s2)
      | (Inr _, s2) \<Rightarrow>
     (case cursor_execute env TARGET_DB_TABLE (device_id, value, full_topic) s2 of
        (Inl e, s3) \<Rightarrow> (Inl e, \<lparr>conn = True, cursor = True\<rparr>, s3)
      | (Inr _, s3) \<Rightarrow>
     (case conn_commit env (device_id, value, full_topic) s3 of
        (Inl e, s4) \<Rightarrow> (Inl e, \<lparr>conn = True, cursor = True\<rparr>, s4)
      | (Inr _, s4) \<Rightarrow>
          (Inr (), \<lparr>conn = True, cursor = True\<rparr>,
           logger DEBUG
             (''Inserted: ID='' @ device_id @ '', Value='' @ value @ '' from topic '' @ full_topic)
             s4)))))"

text \<open>\<^verbatim>\<open>needle in haystack\<close> on strings.\<close>

fun contains :: "string \<Rightarrow> string \<Rightarrow> bool" where
  "contains needle [] = (needle = [])"
| "contains needle (c # cs) = (prefix needle (c # cs) \<or> contains needle cs)"

definition schema_missing :: "string \<Rightarrow> bool" where
  "schema_missing error_message \<longleftrightarrow>
     contains (quoted TARGET_DB_TABLE @ '' doesn'' @ [CHR 0x27] @ ''t exist'') error_message
     \<or> contains ''Unknown column'' error_message"

text \<open>The \<^verbatim>\<open>except Exception as e\<close> clause.\<close>

definition insert_except :: "db_env \<Rightarrow> pyerror \<Rightarrow> frame \<Rightarrow> state \<Rightarrow> (pyerror + unit) \<times> state" where
  "insert_except env e fr s =
     (case (if conn fr then conn_rollback env s else (Inr (), s)) of
        (Inl e', s1) \<Rightarrow> (Inl e', s1)
      | (Inr _, s1) \<Rightarrow>
          (let error_message = str_e e in
           if schema_missing error_message then
             (Inr (), logger ERROR
                (''Database error: Table '' @ quoted TARGET_DB_TABLE
                 @ '' or its required columns (device_id, value_payload, mqtt_topic) are missing.'')
                s1)
           else
             (Inr (), logger ERROR (''Database insertion error: '' @ str_e e) s1)))"

text \<open>
  The \<^verbatim>\<open>finally\<close> clause. \<^verbatim>\<open>conn.is_connected()\<close> is only asked when \<^verbatim>\<open>conn\<close> is not
  \<^verbatim>\<open>None\<close>. \<^verbatim>\<open>cursor.close()\<close> on the unbound variable raises \<^verbatim>\<open>UnboundLocalError\<close> (with
  the text of Python 3.11).
\<close>

definition insert_finally :: "db_env \<Rightarrow> frame \<Rightarrow> state \<Rightarrow> (pyerror + unit) \<times> state" where
  "insert_finally env fr s =
     (if conn fr then
        (let s1 = called Is_connected s in
         if is_connected env then
           (if cursor fr then
              (case cursor_close env s1 of
                 (Inl e, s2) \<Rightarrow> (Inl e, s2)
               | (Inr _, s2) \<Rightarrow> conn_close env s2)
            else
              (Inl (PyError ''UnboundLocalError''
                      (''cannot access local variable '' @ quoted ''cursor''
                       @ '' where it is not associated with a value'')),
               s1))
         else (Inr (), s1))
      else (Inr (), s))"

text \<open>
  \<^verbatim>\<open>try\<close> / \<^verbatim>\<open>except\<close> / \<^verbatim>\<open>finally\<close>: the handler runs when the body raised, the
  \<^verbatim>\<open>finally\<close> clause runs on every path, and an exception it raises replaces the pending
  one.
\<close>

definition insert_data ::
  "db_env \<Rightarrow> string \<Rightarrow> string \<Rightarrow> string \<Rightarrow> state \<Rightarrow> (pyerror + unit) \<times> state" where
  "insert_data env device_id value full_topic s =
     (case insert_try env device_id value full_topic s of
        (r, fr, s1) \<Rightarrow>
          (case (case r of Inr u \<Rightarrow> (Inr u, s1) | Inl e \<Rightarrow> insert_except env e fr s1) of
             (r2, s2) \<Rightarrow>
               (case insert_finally env fr s2 of
                  (Inl e, s3) \<Rightarrow> (Inl e, s3)
                | (Inr _, s3) \<Rightarrow> (r2, s3))))"

subsection \<open>\<^verbatim>\<open>on_message\<close>\<close>

text \<open>The message the client hands to the handler: the topic is a \<^verbatim>\<open>str\<close>, the payload \<^verbatim>\<open>bytes\<close>.\<close>

record message =
  topic :: string
  payload :: string

text \<open>The body of the \<^verbatim>\<open>try\<close> in \<^verbatim>\<open>on_message\<close>.\<close>

definition on_message_try :: "db_env \<Rightarrow> message \<Rightarrow> string \<Rightarrow> state \<Rightarrow> (pyerror + unit) \<times> state" where
  "on_message_try env msg full_topic s =
     (let device_id = drop (length TOPIC_PREFIX) full_topic in
      case decode_utf8 (payload msg) of
        Inl e \<Rightarrow> (Inl e, s)
      | Inr value_payload \<Rightarrow>
          if device_id = [] \<or> value_payload = [] then
            (Inr (), logger WARNING
               (''Skipping message with empty device ID or payload on topic '' @ full_topic) s)
          else insert_data env device_id value_payload full_topic s)"

text \<open>
  \<open>g\<close> stands for the module's globals, which the handler can read; \<open>env\<close> for what the
  connector does while this message is handled.
\<close>

definition on_message :: "globals \<Rightarrow> db_env \<Rightarrow> message \<Rightarrow> state \<Rightarrow> (pyerror + unit) \<times> state" where
  "on_message g env msg s =
     (let full_topic = topic msg in
      if \<not> prefix TOPIC_PREFIX full_topic then
        (Inr (), logger DEBUG (''Skipping non-matching topic: '' @ full_topic) s)
      else
        (case on_message_try env msg full_topic s of
           (Inl e, s1) \<Rightarrow>
             (Inr (), logger ERROR
                (''Error processing message on topic '' @ full_topic @ '': '' @ str_e e) s1)
         | (Inr u, s1) \<Rightarrow> (Inr u, s1)))"

subsection \<open>\<^verbatim>\<open>on_connect\<close> and the network loop\<close>

text \<open>
  \<open>rc_text\<close> is the text of \<^verbatim>\<open>rc\<close> in the log line; \<open>subscribe_err\<close> says whether
  \<^verbatim>\<open>client.subscribe\<close> raises.
\<close>

definition on_connect ::
  "globals \<Rightarrow> int \<Rightarrow> string \<Rightarrow> pyerror option \<Rightarrow> state \<Rightarrow> (pyerror + unit) \<times> state" where
  "on_connect g rc rc_text subscribe_err s =
     (if rc = 0 then
        (let s1 = logger INFO ''Connected to MQTT Broker successfully.'' s;
             s2 = called (Subscribe (MQTT_TOPIC g)) s1 in
         case subscribe_err of
           Some e \<Rightarrow> (Inl e, s2)
         | None \<Rightarrow> (Inr (), logger INFO (''Subscribed to topic: '' @ MQTT_TOPIC g) s2))
      else (Inr (), logger ERROR (''Failed to connect, return code '' @ rc_text) s))"

text \<open>
  What the broker session delivers: a connection acknowledgement, or a message together
  with what the connector does while the message is handled.
\<close>

datatype event =
    Connack int string "pyerror option"
  | Publish message db_env

text \<open>
  \<^verbatim>\<open>loop_forever\<close> calls the callbacks one at a time, in the order of delivery, and an
  exception that leaves a callback leaves the loop. The list holds the events delivered
  until the process is stopped from outside.
\<close>

fun loop_forever :: "globals \<Rightarrow> event list \<Rightarrow> state \<Rightarrow> (pyerror + unit) \<times> state" where
  "loop_forever g [] s = (Inr (), s)"
| "loop_forever g (ev # evs) s =
     (case (case ev of
              Connack rc rc_text subscribe_err \<Rightarrow> on_connect g rc rc_text subscribe_err s
            | Publish msg env \<Rightarrow> on_message g env msg s) of
        (Inl e, s1) \<Rightarrow> (Inl e, s1)
      | (Inr _, s1) \<Rightarrow> loop_forever g evs s1)"

subsection \<open>\<^verbatim>\<open>setup_db_pool\<close> and the main block\<close>

text \<open>
  \<open>pool_err\<close> says whether \<^verbatim>\<open>MySQLConnectionPool(...)\<close> raises. A pool of size 5 starts
  with 5 idle connections. \<^verbatim>\<open>exit(1)\<close> raises \<^verbatim>\<open>SystemExit(1)\<close>.
\<close>

definition setup_db_pool :: "globals \<Rightarrow> pyerror option \<Rightarrow> state \<Rightarrow> (exn + unit) \<times> state" where
  "setup_db_pool g pool_err s =
     (let s1 = logger INFO
                 (''Setting up DB connection pool for '' @ DB_USER g @ ''@'' @ DB_HOST g
                  @ ''/'' @ DB_NAME g @ ''...'') s;
          s2 = called (Pool_create (DB_HOST g) (DB_NAME g) (DB_USER g) (DB_PASS g)) s1 in
      case pool_err of
        None \<Rightarrow>
          (Inr (), logger INFO ''Database connection pool established.''
                     (s2\<lparr>DB_POOL := Some 5\<rparr>))
      | Some e \<Rightarrow>
          (Inl (SystemExit 1),
           logger ERROR (''Error setting up DB connection pool: '' @ str_e e) s2))"

record run_env =
  create_pool_err :: "pyerror option"
  connect_err :: "pyerror option"
  session :: "event list"

text \<open>The body of the \<^verbatim>\<open>try\<close> in the main block.\<close>

definition main_try :: "globals \<Rightarrow> run_env \<Rightarrow> state \<Rightarrow> (pyerror + unit) \<times> state" where
  "main_try g env s =
     (let s1 = called (Mqtt_connect (MQTT_HOST g) (MQTT_PORT g) 60) s in
      case connect_err env of
        Some e \<Rightarrow> (Inl e, s1)
      | None \<Rightarrow>
          loop_forever g (session env)
            (called Loop_forever (logger INFO ''Awaiting MQTT messages...'' s1)))"

text \<open>
  The block under \<^verbatim>\<open>if __name__ == "__main__"\<close>. \<^verbatim>\<open>setup_db_pool()\<close> is called outside
  any \<^verbatim>\<open>try\<close>, so its \<^verbatim>\<open>SystemExit\<close> ends the block.
\<close>

definition main :: "globals \<Rightarrow> run_env \<Rightarrow> state \<Rightarrow> (exn + unit) \<times> state" where
  "main g env s =
     (let s1 = logger INFO ''MQTT Subscriber service started.'' s in
      case setup_db_pool g (create_pool_err env) s1 of
        (Inl x, s2) \<Rightarrow> (Inl x, s2)
      | (Inr _, s2) \<Rightarrow>
          (let s3 = called Mqtt_Client s2 in
           case main_try g env s3 of
             (Inl e, s4) \<Rightarrow>
               (Inr (), logger ERROR (''MQTT connection failed: '' @ str_e e) s4)
           | (Inr u, s4) \<Rightarrow> (Inr u, s4)))"

text \<open>
  The exit status of the interpreter: 0 when the script runs to its end, the argument of
  \<^verbatim>\<open>SystemExit\<close>, and 1 after an uncaught exception.
\<close>

fun exit_status :: "exn + unit \<Rightarrow> int" where
  "exit_status (Inr _) = 0"
| "exit_status (Inl (SystemExit n)) = n"
| "exit_status (Inl (Error e)) = 1"

subsection \<open>Loading the configuration\<close>

text \<open>
  \<^verbatim>\<open>int(x)\<close> on a \<^verbatim>\<open>str\<close>, base 10: white space around the literal is skipped, one sign
  may lead, and the digits may be separated by single underscores. On a text that is not
  ASCII, CPython consults the Unicode tables of decimal digits and white space; these
  tables are the parameter \<open>unicode_int\<close>. The limit on the number of digits of recent
  interpreters and the escaping done by \<^verbatim>\<open>repr\<close> in the message are not modelled.
\<close>

definition is_space :: "char \<Rightarrow> bool" where
  "is_space c \<longleftrightarrow> (9 \<le> (of_char c :: nat) \<and> (of_char c :: nat) \<le> 13) \<or> c = CHR '' ''"

definition is_digit :: "char \<Rightarrow> bool" where
  "is_digit c \<longleftrightarrow> 48 \<le> (of_char c :: nat) \<and> (of_char c :: nat) \<le> 57"

definition strip :: "string \<Rightarrow> string" where
  "strip x = rev (dropWhile is_space (rev (dropWhile is_space x)))"

fun valid_body :: "string \<Rightarrow> bool" where
  "valid_body [] = False"
| "valid_body [c] = is_digit c"
| "valid_body (c # d # r) =
     (is_digit c \<and> (if d = CHR ''_'' then valid_body r else valid_body (d # r)))"

definition digits_value :: "string \<Rightarrow> int" where
  "digits_value body =
     foldl (\<lambda>a c. 10 * a + (int (of_char c) - 48)) 0 (filter is_digit body)"

definition py_int :: "(string \<Rightarrow> pyerror + int) \<Rightarrow> string \<Rightarrow> pyerror + int" where
  "py_int unicode_int x =
     (if \<exists>c \<in> set x. 128 \<le> (of_char c :: nat) then unicode_int x
      else
        (let t = strip x;
             (sgn, body) =
               (case t of
                  [] \<Rightarrow> (1, t)
                | c # r \<Rightarrow>
                    if c = CHR ''+'' then (1, r)
                    else if c = CHR ''-'' then (- 1, r)
                    else (1, t)) in
         if valid_body body then Inr (sgn * digits_value body)
         else Inl (PyError ''ValueError''
                     (''invalid literal for int() with base 10: '' @ quoted x))))"

definition getenv :: "(string \<rightharpoonup> string) \<Rightarrow> string \<Rightarrow> string \<Rightarrow> string" where
  "getenv environ key dflt = (case environ key of None \<Rightarrow> dflt | Some v \<Rightarrow> v)"

text \<open>
  The assignments at the top of the module, in their order. Only the second can raise:
  \<^verbatim>\<open>os.getenv("MQTT_PORT", 1883)\<close> is the integer 1883 when the variable is unset and
  the variable's text otherwise.
\<close>

definition load_globals ::
  "(string \<Rightarrow> pyerror + int) \<Rightarrow> (string \<rightharpoonup> string) \<Rightarrow> pyerror + globals" where
  "load_globals unicode_int environ =
     (let host = getenv environ ''MQTT_HOST'' ''SITH-MQTT-Broker'' in
      case (case environ ''MQTT_PORT'' of
              None \<Rightarrow> Inr 1883
            | Some v \<Rightarrow> py_int unicode_int v) of
        Inl e \<Rightarrow> Inl e
      | Inr port \<Rightarrow>
          Inr \<lparr>MQTT_HOST = host,
               MQTT_PORT = port,
               MQTT_TOPIC = getenv environ ''MQTT_TOPIC'' ''roverCommsLog/#'',
               DB_HOST = getenv environ ''DB_HOST'' ''SITH-MySQL'',
               DB_NAME = getenv environ ''DB_NAME'' ''SITH'',
               DB_USER = getenv environ ''DB_USER'' ''SITH'',
               DB_PASS = getenv environ ''DB_PASS'' ''SITH''\<rparr>)"

text \<open>
  The state in which the interpreter starts the module: no pool, nothing logged, no
  library call made; \<open>tbl\<close> is what the table holds already.
\<close>

definition start :: "row list \<Rightarrow> state" where
  "start tbl = \<lparr>DB_POOL = None, logged = [], table = tbl, calls = []\<rparr>"

text \<open>
  Running the module as a script: the top-level assignments, then the main block. An
  exception of a top-level assignment is uncaught and ends the process.
\<close>

definition program ::
  "(string \<Rightarrow> pyerror + int) \<Rightarrow> (string \<rightharpoonup> string) \<Rightarrow> run_env \<Rightarrow> row list
     \<Rightarrow> (exn + unit) \<times> state" where
  "program unicode_int environ env tbl =
     (case load_globals unicode_int environ of
        Inl e \<Rightarrow> (Inl (Error e), start tbl)
      | Inr g \<Rightarrow> main g env (start tbl))"


subsection \<open>Concrete inputs\<close>

text \<open>
  The configuration with every default; a database on which every call succeeds and one
  whose connection is lost while the statement is executed; the state in which the pool
  has just been set up; a run in which the pool cannot be created and a run in which
  everything succeeds.
\<close>

definition example_globals :: globals where
  "example_globals = \<lparr>MQTT_HOST = ''SITH-MQTT-Broker'', MQTT_PORT = 1883, MQTT_TOPIC = ''roverCommsLog/#'',
         DB_HOST = ''SITH-MySQL'', DB_NAME = ''SITH'', DB_USER = ''SITH'', DB_PASS = ''SITH''\<rparr>"

definition env_ok :: db_env where
  "env_ok = \<lparr>get_connection_err = None, cursor_err = None, execute_err = None, commit_err = None,
     rollback_err = None, is_connected = True, cursor_close_err = None, close_err = None, now = 7\<rparr>"

definition env_lost :: db_env where
  "env_lost = env_ok
     \<lparr>execute_err := Some (PyError ''OperationalError''
                           ''2013 (HY000): Lost connection to MySQL server during query''),
      rollback_err := Some (PyError ''OperationalError'' ''MySQL Connection not available.''),
      is_connected := False\<rparr>"

definition ready :: state where "ready = \<lparr>DB_POOL = Some 5, logged = [], table = [], calls = []\<rparr>"

definition run_pool_down :: run_env where
  "run_pool_down =
     \<lparr>create_pool_err = Some (PyError ''InterfaceError''
          ''2003: Cannot connect to MySQL server on SITH-MySQL:3306''),
      connect_err = None,
      session = [Connack 0 ''Success'' None,
                 Publish \<lparr>topic = ''roverCommsLog/rover_A'', payload = ''24.5''\<rparr> env_ok]\<rparr>"

definition run_ok :: run_env where
  "run_ok =
     \<lparr>create_pool_err = None, connect_err = None,
      session = [Connack 0 ''Success'' None,
                 Publish \<lparr>topic = ''roverCommsLog/rover_A'', payload = ''24.5''\<rparr> env_ok]\<rparr>"

section \<open>Properties\<close>

subsection \<open>Auxiliary facts\<close>

lemma logger_sel [simp]:
  "DB_POOL (logger l m s) = DB_POOL s"
  "table (logger l m s) = table s"
  "calls (logger l m s) = calls s"
  "logged (logger l m s) = logged s @ [(l, m)]"
  by (simp_all add: logger_def)

lemma called_sel [simp]:
  "DB_POOL (called c s) = DB_POOL s"
  "table (called c s) = table s"
  "calls (called c s) = calls s @ [c]"
  "logged (called c s) = logged s"
  by (simp_all add: called_def)

lemma emitted_logger_DEBUG [simp]: "emitted (logger DEBUG m s) = emitted s"
  by (simp add: emitted_def)

lemmas db_ops = get_connection_def conn_cursor_def cursor_execute_def conn_commit_def
  conn_rollback_def cursor_close_def conn_close_def

lemmas insert_parts = insert_data_def insert_try_def insert_except_def insert_finally_def

lemmas run_defs = on_message_def on_message_try_def insert_parts db_ops decode_utf8_def
  logger_def called_def TOPIC_PREFIX_def TARGET_DB_TABLE_def cont_byte_def second3_def
  second4_def decode_error_text_def hex2_def schema_missing_def quoted_def Let_def

text \<open>
  What one phase of \<^verbatim>\<open>insert_data\<close> can do to the table and which statements it can
  execute.
\<close>

lemma insert_try_frame:
  assumes "insert_try env d v t s = (r, fr, s1)"
  shows "(table s1 = table s \<or> table s1 = table s @ [(d, v, t, now env)])
       \<and> (\<forall>tbl p. Execute tbl p \<in> set (calls s1) \<longrightarrow>
             Execute tbl p \<in> set (calls s) \<or> (tbl = TARGET_DB_TABLE \<and> p = (d, v, t)))"
  using assms
  by (auto simp: insert_try_def db_ops Let_def split: option.splits if_splits)

lemma insert_except_frame:
  assumes "insert_except env e fr s = (r, s1)"
  shows "table s1 = table s
       \<and> (\<forall>tbl p. Execute tbl p \<in> set (calls s1) \<longrightarrow> Execute tbl p \<in> set (calls s))"
  using assms
  by (auto simp: insert_except_def conn_rollback_def Let_def split: option.splits if_splits)

lemma insert_finally_frame:
  assumes "insert_finally env fr s = (r, s1)"
  shows "table s1 = table s
       \<and> (\<forall>tbl p. Execute tbl p \<in> set (calls s1) \<longrightarrow> Execute tbl p \<in> set (calls s))"
  using assms
  by (auto simp: insert_finally_def cursor_close_def conn_close_def Let_def
      split: option.splits if_splits)

lemma insert_data_frame:
  "(table (snd (insert_data env d v t s)) = table s
      \<or> table (snd (insert_data env d v t s)) = table s @ [(d, v, t, now env)])
   \<and> (\<forall>tbl p. Execute tbl p \<in> set (calls (snd (insert_data env d v t s))) \<longrightarrow>
         Execute tbl p \<in> set (calls s) \<or> (tbl = TARGET_DB_TABLE \<and> p = (d, v, t)))"
proof -
  obtain r fr s1 where t: "insert_try env d v t s = (r, fr, s1)"
    by (cases "insert_try env d v t s")
  obtain r2 s2 where e:
    "(case r of Inr u \<Rightarrow> (Inr u, s1) | Inl e \<Rightarrow> insert_except env e fr s1) = (r2, s2)"
    by (cases "case r of Inr u \<Rightarrow> (Inr u, s1) | Inl e \<Rightarrow> insert_except env e fr s1")
  obtain r3 s3 where f: "insert_finally env fr s2 = (r3, s3)"
    by (cases "insert_finally env fr s2")
  have s': "snd (insert_data env d v t s) = s3"
    using t e f by (cases r3) (simp_all add: insert_data_def)
  have e': "table s2 = table s1
       \<and> (\<forall>tbl p. Execute tbl p \<in> set (calls s2) \<longrightarrow> Execute tbl p \<in> set (calls s1))"
  proof (cases r)
    case (Inl x)
    with e show ?thesis using insert_except_frame [of env x fr s1 r2 s2] by simp
  next
    case (Inr u)
    with e show ?thesis by simp
  qed
  show ?thesis
    unfolding s'
    using insert_try_frame [OF t] e' insert_finally_frame [OF f] by metis
qed

lemma insert_data_table:
  "table (snd (insert_data env d v t s)) = table s
   \<or> table (snd (insert_data env d v t s)) = table s @ [(d, v, t, now env)]"
  using insert_data_frame [of env d v t s] by blast

lemma insert_data_Execute:
  "Execute tbl p \<in> set (calls (snd (insert_data env d v t s))) \<Longrightarrow>
     Execute tbl p \<in> set (calls s) \<or> (tbl = TARGET_DB_TABLE \<and> p = (d, v, t))"
  using insert_data_frame [of env d v t s] by blast

text \<open>
  The handler on a topic that passes the filter, and where a statement or a row that the
  handler adds comes from.
\<close>

lemma drop_prefix [simp]: "drop (length TOPIC_PREFIX) (TOPIC_PREFIX @ X) = X"
  by simp

lemma decode_utf8_Inr: "decode_utf8 p = Inr v \<Longrightarrow> v = p"
  by (simp add: decode_utf8_def split: option.splits)

lemma on_message_matching:
  assumes "prefix TOPIC_PREFIX (topic msg)"
  shows "on_message g env msg s =
     (case decode_utf8 (payload msg) of
        Inl e \<Rightarrow>
          (Inr (), logger ERROR
             (''Error processing message on topic '' @ topic msg @ '': '' @ str_e e) s)
      | Inr v \<Rightarrow>
          if drop (length TOPIC_PREFIX) (topic msg) = [] \<or> v = [] then
            (Inr (), logger WARNING
               (''Skipping message with empty device ID or payload on topic '' @ topic msg) s)
          else
            (case insert_data env (drop (length TOPIC_PREFIX) (topic msg)) v (topic msg) s of
               (Inl e, s1) \<Rightarrow>
                 (Inr (), logger ERROR
                    (''Error processing message on topic '' @ topic msg @ '': '' @ str_e e) s1)
             | (Inr u, s1) \<Rightarrow> (Inr u, s1)))"
  using assms
  by (simp add: on_message_def on_message_try_def Let_def split: sum.splits prod.splits)

lemma on_message_Execute:
  assumes "Execute tbl p \<in> set (calls (snd (on_message g env msg s)))"
    and "Execute tbl p \<notin> set (calls s)"
  shows "prefix TOPIC_PREFIX (topic msg) \<and> tbl = TARGET_DB_TABLE
         \<and> (\<exists>v. decode_utf8 (payload msg) = Inr v \<and> v \<noteq> []
                \<and> drop (length TOPIC_PREFIX) (topic msg) \<noteq> []
                \<and> p = (drop (length TOPIC_PREFIX) (topic msg), v, topic msg))"
proof (cases "prefix TOPIC_PREFIX (topic msg)")
  case False
  with assms show ?thesis by (simp add: on_message_def)
next
  case True
  show ?thesis
  proof (cases "decode_utf8 (payload msg)")
    case (Inl e)
    with True assms show ?thesis by (simp add: on_message_matching)
  next
    case (Inr v)
    show ?thesis
    proof (cases "drop (length TOPIC_PREFIX) (topic msg) = [] \<or> v = []")
      case True
      with \<open>prefix TOPIC_PREFIX (topic msg)\<close> Inr assms show ?thesis
        by (simp add: on_message_matching)
    next
      case False
      let ?d = "drop (length TOPIC_PREFIX) (topic msg)"
      obtain r s1 where ins: "insert_data env ?d v (topic msg) s = (r, s1)"
        by (cases "insert_data env ?d v (topic msg) s")
      from \<open>prefix TOPIC_PREFIX (topic msg)\<close> Inr False ins
      have "calls (snd (on_message g env msg s)) = calls s1"
        by (cases r) (simp_all add: on_message_matching)
      with assms(1) ins have "Execute tbl p \<in> set (calls (snd (insert_data env ?d v (topic msg) s)))"
        by simp
      from insert_data_Execute [OF this] assms(2)
      have "tbl = TARGET_DB_TABLE \<and> p = (?d, v, topic msg)" by blast
      with \<open>prefix TOPIC_PREFIX (topic msg)\<close> Inr False show ?thesis by simp
    qed
  qed
qed

lemma on_message_table:
  assumes "r \<in> set (table (snd (on_message g env msg s)))" and "r \<notin> set (table s)"
  shows "prefix TOPIC_PREFIX (topic msg)
         \<and> (\<exists>v. decode_utf8 (payload msg) = Inr v \<and> v \<noteq> []
                \<and> drop (length TOPIC_PREFIX) (topic msg) \<noteq> []
                \<and> r = (drop (length TOPIC_PREFIX) (topic msg), v, topic msg, now env))"
proof (cases "prefix TOPIC_PREFIX (topic msg)")
  case False
  with assms show ?thesis by (simp add: on_message_def)
next
  case True
  show ?thesis
  proof (cases "decode_utf8 (payload msg)")
    case (Inl e)
    with True assms show ?thesis by (simp add: on_message_matching)
  next
    case (Inr v)
    show ?thesis
    proof (cases "drop (length TOPIC_PREFIX) (topic msg) = [] \<or> v = []")
      case True
      with \<open>prefix TOPIC_PREFIX (topic msg)\<close> Inr assms show ?thesis
        by (simp add: on_message_matching)
    next
      case False
      let ?d = "drop (length TOPIC_PREFIX) (topic msg)"
      obtain r' s1 where ins: "insert_data env ?d v (topic msg) s = (r', s1)"
        by (cases "insert_data env ?d v (topic msg) s")
      from \<open>prefix TOPIC_PREFIX (topic msg)\<close> Inr False ins
      have "table (snd (on_message g env msg s)) = table s1"
        by (cases r') (simp_all add: on_message_matching)
      with assms(1) ins have "r \<in> set (table (snd (insert_data env ?d v (topic msg) s)))"
        by simp
      with insert_data_table [of env ?d v "topic msg" s] assms(2)
      have "r = (?d, v, topic msg, now env)" by auto
      with \<open>prefix TOPIC_PREFIX (topic msg)\<close> Inr False show ?thesis by simp
    qed
  qed
qed



lemma get_connection_acquired:
  assumes "fst (get_connection env s) = Inr ()"
  obtains n where "DB_POOL s = Some (Suc n)" and "get_connection_err env = None"
    and "get_connection env s = (Inr (), (called Get_connection s)\<lparr>DB_POOL := Some n\<rparr>)"
proof -
  from assms obtain k where k: "DB_POOL s = Some k"
    by (cases "DB_POOL s") (simp_all add: get_connection_def)
  from assms k have "k \<noteq> 0" and e: "get_connection_err env = None"
    by (auto simp: get_connection_def Let_def split: if_splits option.splits)
  then obtain n where n: "k = Suc n" by (cases k) simp_all
  from k n e have "get_connection env s = (Inr (), (called Get_connection s)\<lparr>DB_POOL := Some n\<rparr>)"
    by (simp add: get_connection_def Let_def)
  with k n e that show thesis by blast
qed

subsection \<open>The topic filter\<close>

text \<open>
  Claim C1. A message whose topic does not start with \<^verbatim>\<open>roverCommsLog/\<close> makes the handler
  return after one call of \<^verbatim>\<open>logger.debug\<close>: no call into the connector is made, the pool
  and the table are as before, and, the logger being configured at level \<^verbatim>\<open>INFO\<close>, nothing
  is written to the log either.
\<close>

theorem skip_non_matching:
  assumes "\<not> prefix TOPIC_PREFIX (topic msg)"
  shows "on_message g env msg s =
           (Inr (), logger DEBUG (''Skipping non-matching topic: '' @ topic msg) s)
         \<and> DB_POOL (snd (on_message g env msg s)) = DB_POOL s
         \<and> table (snd (on_message g env msg s)) = table s
         \<and> calls (snd (on_message g env msg s)) = calls s
         \<and> emitted (snd (on_message g env msg s)) = emitted s"
  using assms by (simp add: on_message_def)

text \<open>
  The message on \<^verbatim>\<open>otherTopic/x\<close> with payload \<^verbatim>\<open>hello\<close> produces no row.
\<close>

theorem skip_non_matching_witness:
  "\<not> prefix TOPIC_PREFIX ''otherTopic/x''
   \<and> on_message example_globals env_ok \<lparr>topic = ''otherTopic/x'', payload = ''hello''\<rparr> ready =
       (Inr (), \<lparr>DB_POOL = Some 5, logged = [(DEBUG, ''Skipping non-matching topic: otherTopic/x'')], table = [], calls = []\<rparr>)
   \<and> table (snd (on_message example_globals env_ok \<lparr>topic = ''otherTopic/x'', payload = ''hello''\<rparr> ready)) = []"
  using skip_non_matching [of "\<lparr>topic = ''otherTopic/x'', payload = ''hello''\<rparr>" example_globals env_ok ready]
  by (simp add: TOPIC_PREFIX_def ready_def logger_def)

subsection \<open>The device identifier\<close>

text \<open>
  Claim C2. On a topic \<^verbatim>\<open>roverCommsLog/\<close> followed by a non-empty \<open>X\<close>, the device
  identifier is \<open>X\<close>: whenever the handler calls \<^verbatim>\<open>insert_data\<close> its first argument is
  \<open>X\<close>, every statement it executes carries \<open>X\<close> as \<^verbatim>\<open>device_id\<close>, and so does every row it
  adds to the table. (\<^verbatim>\<open>insert_data\<close> is reached when the payload decodes to a non-empty
  text; the other two outcomes are the branches of the equation.)
\<close>

theorem device_id_is_topic_suffix:
  assumes "X \<noteq> []" and "topic msg = TOPIC_PREFIX @ X"
  shows "on_message g env msg s =
     (case decode_utf8 (payload msg) of
        Inl e \<Rightarrow>
          (Inr (), logger ERROR
             (''Error processing message on topic '' @ topic msg @ '': '' @ str_e e) s)
      | Inr v \<Rightarrow>
          if v = [] then
            (Inr (), logger WARNING
               (''Skipping message with empty device ID or payload on topic '' @ topic msg) s)
          else
            (case insert_data env X v (topic msg) s of
               (Inl e, s1) \<Rightarrow>
                 (Inr (), logger ERROR
                    (''Error processing message on topic '' @ topic msg @ '': '' @ str_e e) s1)
             | (Inr u, s1) \<Rightarrow> (Inr u, s1)))
     \<and> (\<forall>tbl p. Execute tbl p \<in> set (calls (snd (on_message g env msg s)))
           \<longrightarrow> Execute tbl p \<in> set (calls s) \<or> fst p = X)
     \<and> (\<forall>r \<in> set (table (snd (on_message g env msg s))). r \<in> set (table s) \<or> fst r = X)"
proof (intro conjI allI impI ballI)
  have pre: "prefix TOPIC_PREFIX (topic msg)" using assms(2) by simp
  have dev: "drop (length TOPIC_PREFIX) (topic msg) = X" using assms(2) by simp
  show "on_message g env msg s =
     (case decode_utf8 (payload msg) of
        Inl e \<Rightarrow>
          (Inr (), logger ERROR
             (''Error processing message on topic '' @ topic msg @ '': '' @ str_e e) s)
      | Inr v \<Rightarrow>
          if v = [] then
            (Inr (), logger WARNING
               (''Skipping message with empty device ID or payload on topic '' @ topic msg) s)
          else
            (case insert_data env X v (topic msg) s of
               (Inl e, s1) \<Rightarrow>
                 (Inr (), logger ERROR
                    (''Error processing message on topic '' @ topic msg @ '': '' @ str_e e) s1)
             | (Inr u, s1) \<Rightarrow> (Inr u, s1)))"
    using assms(1) by (simp add: on_message_matching [OF pre] dev split: sum.splits)
  fix tbl p
  assume a: "Execute tbl p \<in> set (calls (snd (on_message g env msg s)))"
  show "Execute tbl p \<in> set (calls s) \<or> fst p = X"
  proof (cases "Execute tbl p \<in> set (calls s)")
    case False
    from on_message_Execute [OF a False] dev show ?thesis by auto
  qed simp
next
  fix r
  assume a: "r \<in> set (table (snd (on_message g env msg s)))"
  show "r \<in> set (table s) \<or> fst r = X"
  proof (cases "r \<in> set (table s)")
    case False
    from on_message_table [OF a False] assms(2) show ?thesis by auto
  qed simp
qed

text \<open>
  The message on \<^verbatim>\<open>roverCommsLog/rover_A\<close> with payload \<^verbatim>\<open>24.5\<close> gives one row for
  \<^verbatim>\<open>rover_A\<close>.
\<close>

theorem device_id_is_topic_suffix_witness:
  "''rover_A'' \<noteq> [] \<and> ''roverCommsLog/rover_A'' = TOPIC_PREFIX @ ''rover_A''
   \<and> on_message example_globals env_ok
        \<lparr>topic = ''roverCommsLog/rover_A'', payload = ''24.5''\<rparr> ready =
       (Inr (),
        \<lparr>DB_POOL = Some 5,
         logged = [(DEBUG, ''Inserted: ID=rover_A, Value=24.5 from topic roverCommsLog/rover_A'')],
         table = [(''rover_A'', ''24.5'', ''roverCommsLog/rover_A'', 7)],
         calls = [Get_connection, Cursor,
                  Execute ''mqtt_data_log'' (''rover_A'', ''24.5'', ''roverCommsLog/rover_A''),
                  Commit, Is_connected, Cursor_close, Conn_close]\<rparr>)"
  using device_id_is_topic_suffix [of "''rover_A''"
      "\<lparr>topic = ''roverCommsLog/rover_A'', payload = ''24.5''\<rparr>" example_globals env_ok ready]
  by (simp add: run_defs env_ok_def ready_def)

subsection \<open>The stored value\<close>

text \<open>
  Claim C3. When the payload decodes to a non-empty text \<open>v\<close>, every call of
  \<^verbatim>\<open>insert_data\<close> by the handler has \<open>v\<close> as its value, and \<open>v\<close> is the payload byte for byte:
  every statement the handler executes and every row it adds carries the payload
  unchanged as \<^verbatim>\<open>value_payload\<close>. (\<^verbatim>\<open>insert_data\<close> is reached when the topic passes the
  filter and names a device; the other two outcomes are the branches of the equation.)
\<close>

theorem payload_stored_unmodified:
  assumes "decode_utf8 (payload msg) = Inr v" and "v \<noteq> []"
  shows "on_message g env msg s =
     (if \<not> prefix TOPIC_PREFIX (topic msg) then
        (Inr (), logger DEBUG (''Skipping non-matching topic: '' @ topic msg) s)
      else if drop (length TOPIC_PREFIX) (topic msg) = [] then
        (Inr (), logger WARNING
           (''Skipping message with empty device ID or payload on topic '' @ topic msg) s)
      else
        (case insert_data env (drop (length TOPIC_PREFIX) (topic msg)) v (topic msg) s of
           (Inl e, s1) \<Rightarrow>
             (Inr (), logger ERROR
                (''Error processing message on topic '' @ topic msg @ '': '' @ str_e e) s1)
         | (Inr u, s1) \<Rightarrow> (Inr u, s1)))
     \<and> v = payload msg
     \<and> (\<forall>tbl p. Execute tbl p \<in> set (calls (snd (on_message g env msg s)))
           \<longrightarrow> Execute tbl p \<in> set (calls s) \<or> fst (snd p) = payload msg)
     \<and> (\<forall>r \<in> set (table (snd (on_message g env msg s))).
           r \<in> set (table s) \<or> fst (snd r) = payload msg)"
proof (intro conjI allI impI ballI)
  show "on_message g env msg s =
     (if \<not> prefix TOPIC_PREFIX (topic msg) then
        (Inr (), logger DEBUG (''Skipping non-matching topic: '' @ topic msg) s)
      else if drop (length TOPIC_PREFIX) (topic msg) = [] then
        (Inr (), logger WARNING
           (''Skipping message with empty device ID or payload on topic '' @ topic msg) s)
      else
        (case insert_data env (drop (length TOPIC_PREFIX) (topic msg)) v (topic msg) s of
           (Inl e, s1) \<Rightarrow>
             (Inr (), logger ERROR
                (''Error processing message on topic '' @ topic msg @ '': '' @ str_e e) s1)
         | (Inr u, s1) \<Rightarrow> (Inr u, s1)))"
  proof (cases "prefix TOPIC_PREFIX (topic msg)")
    case True
    then show ?thesis using assms by (simp add: on_message_matching)
  next
    case False
    then show ?thesis by (simp add: on_message_def)
  qed
  show v: "v = payload msg" using assms(1) by (rule decode_utf8_Inr)
  fix tbl p
  assume a: "Execute tbl p \<in> set (calls (snd (on_message g env msg s)))"
  show "Execute tbl p \<in> set (calls s) \<or> fst (snd p) = payload msg"
  proof (cases "Execute tbl p \<in> set (calls s)")
    case False
    from on_message_Execute [OF a False] assms(1) v show ?thesis by auto
  qed simp
next
  fix r
  assume a: "r \<in> set (table (snd (on_message g env msg s)))"
  show "r \<in> set (table s) \<or> fst (snd r) = payload msg"
  proof (cases "r \<in> set (table s)")
    case False
    from on_message_table [OF a False] assms(1) decode_utf8_Inr [OF assms(1)]
    show ?thesis by auto
  qed simp
qed

text \<open>
  A payload with blanks and leading zeros is stored as it came.
\<close>

theorem payload_stored_unmodified_witness:
  "decode_utf8 '' 0024.50 '' = Inr '' 0024.50 '' \<and> '' 0024.50 '' \<noteq> []
   \<and> table (snd (on_message example_globals env_ok
        \<lparr>topic = ''roverCommsLog/rover_A'', payload = '' 0024.50 ''\<rparr> ready)) =
       [(''rover_A'', '' 0024.50 '', ''roverCommsLog/rover_A'', 7)]"
  using payload_stored_unmodified [of "\<lparr>topic = ''roverCommsLog/rover_A'', payload = '' 0024.50 ''\<rparr>"
      "'' 0024.50 ''" example_globals env_ok ready]
  by (simp add: run_defs env_ok_def ready_def)

subsection \<open>Empty fields\<close>

text \<open>
  Claim C4, as amended. On a topic that passes the filter, a message whose device
  identifier is empty or whose payload decodes to the empty text is discarded: the handler
  returns, makes no call into the connector and leaves pool and table as they are. When
  the payload decodes, what the handler logs is the warning. The claim as stated promises
  the warning also on a topic that is the prefix alone with a payload that is not UTF-8;
  there the payload is decoded before the fields are tested, the decoding raises, and the
  handler logs an error instead, as the last theorem of this subsection shows.
\<close>

theorem empty_field_discarded:
  assumes "prefix TOPIC_PREFIX (topic msg)"
    and "drop (length TOPIC_PREFIX) (topic msg) = [] \<or> decode_utf8 (payload msg) = Inr []"
  shows "fst (on_message g env msg s) = Inr ()
     \<and> table (snd (on_message g env msg s)) = table s
     \<and> calls (snd (on_message g env msg s)) = calls s
     \<and> DB_POOL (snd (on_message g env msg s)) = DB_POOL s
     \<and> (\<forall>v. decode_utf8 (payload msg) = Inr v \<longrightarrow>
          on_message g env msg s =
            (Inr (), logger WARNING
               (''Skipping message with empty device ID or payload on topic '' @ topic msg) s))"
  using assms
  by (cases "decode_utf8 (payload msg)") (auto simp: on_message_matching)

text \<open>
  The message on \<^verbatim>\<open>roverCommsLog/rover_B\<close> with an empty payload: no row, one warning.
\<close>

theorem empty_field_discarded_witness:
  "prefix TOPIC_PREFIX ''roverCommsLog/rover_B''
   \<and> decode_utf8 [] = Inr []
   \<and> on_message example_globals env_ok \<lparr>topic = ''roverCommsLog/rover_B'', payload = []\<rparr> ready =
      (Inr (),
       \<lparr>DB_POOL = Some 5,
        logged = [(WARNING,
          ''Skipping message with empty device ID or payload on topic roverCommsLog/rover_B'')],
        table = [], calls = []\<rparr>)"
  using empty_field_discarded [of "\<lparr>topic = ''roverCommsLog/rover_B'', payload = []\<rparr>"
      example_globals env_ok ready]
  by (simp add: run_defs ready_def)

text \<open>
  The topic is the prefix alone and the payload is the byte \<^verbatim>\<open>0xFF\<close>: the device
  identifier is empty, and the only record logged is at level \<^verbatim>\<open>ERROR\<close>.
\<close>

theorem empty_device_id_undecodable_payload:
  "prefix TOPIC_PREFIX ''roverCommsLog/''
   \<and> drop (length TOPIC_PREFIX) ''roverCommsLog/'' = []
   \<and> on_message example_globals env_ok \<lparr>topic = ''roverCommsLog/'', payload = [CHR 0xFF]\<rparr> ready =
      (Inr (),
       \<lparr>DB_POOL = Some 5,
        logged = [(ERROR,
          ''Error processing message on topic roverCommsLog/: '' @ quoted ''utf-8''
          @ '' codec can'' @ [CHR 0x27] @ ''t decode byte 0xff in position 0: invalid start byte'')],
        table = [], calls = []\<rparr>)
   \<and> WARNING \<notin> fst ` set (logged (snd (on_message example_globals env_ok
         \<lparr>topic = ''roverCommsLog/'', payload = [CHR 0xFF]\<rparr> ready)))"
  by (simp add: run_defs ready_def)

subsection \<open>Errors stay inside the handler\<close>



subsection \<open>Releasing the connection\<close>

text \<open>
  Claim C6, as amended. When \<^verbatim>\<open>insert_data\<close> has acquired a connection, the connection is
  back in the pool when \<^verbatim>\<open>insert_data\<close> is left, whether the insert succeeded or failed,
  provided \<^verbatim>\<open>conn.is_connected()\<close> answers true in the \<^verbatim>\<open>finally\<close> clause (and the cursor
  was created and closes). When it answers false, \<^verbatim>\<open>conn.close()\<close> is not called and the
  pool has one connection less than before. The claim as stated promises the release on
  every path.
\<close>

theorem connection_released_if_connected:
  assumes "fst (get_connection env s) = Inr ()"
  shows "(is_connected env \<and> cursor_err env = None \<and> cursor_close_err env = None \<longrightarrow>
            DB_POOL (snd (insert_data env d v t s)) = DB_POOL s
            \<and> last (calls (snd (insert_data env d v t s))) = Conn_close)
       \<and> (\<not> is_connected env \<longrightarrow>
            map_option Suc (DB_POOL (snd (insert_data env d v t s))) = DB_POOL s
            \<and> last (calls (snd (insert_data env d v t s))) = Is_connected)"
proof -
  from assms obtain n where n: "DB_POOL s = Some (Suc n)" and e: "get_connection_err env = None"
    and g: "get_connection env s = (Inr (), (called Get_connection s)\<lparr>DB_POOL := Some n\<rparr>)"
    by (rule get_connection_acquired)
  show ?thesis
    by (auto simp: insert_parts g n conn_cursor_def cursor_execute_def conn_commit_def
        conn_rollback_def cursor_close_def conn_close_def Let_def
        split: option.splits)
qed

text \<open>
  A commit that fails on a live connection: rolled back, logged, released.
\<close>

theorem connection_released_if_connected_witness:
  "fst (get_connection (env_ok\<lparr>commit_err := Some (PyError ''DatabaseError'' ''1205 (HY000): Lock wait timeout exceeded'')\<rparr>) ready) = Inr ()
   \<and> insert_data (env_ok\<lparr>commit_err := Some (PyError ''DatabaseError'' ''1205 (HY000): Lock wait timeout exceeded'')\<rparr>)
        ''rover_A'' ''24.5'' ''roverCommsLog/rover_A'' ready =
      (Inr (),
       \<lparr>DB_POOL = Some 5,
        logged = [(ERROR, ''Database insertion error: 1205 (HY000): Lock wait timeout exceeded'')],
        table = [],
        calls = [Get_connection, Cursor,
                 Execute ''mqtt_data_log'' (''rover_A'', ''24.5'', ''roverCommsLog/rover_A''),
                 Commit, Rollback, Is_connected, Cursor_close, Conn_close]\<rparr>)"
  using connection_released_if_connected
    [of "env_ok\<lparr>commit_err := Some (PyError ''DatabaseError'' ''1205 (HY000): Lock wait timeout exceeded'')\<rparr>"
        ready "''rover_A''" "''24.5''" "''roverCommsLog/rover_A''"]
  by (simp add: run_defs env_ok_def ready_def)

text \<open>
  The connection is lost while the statement is executed: \<^verbatim>\<open>insert_data\<close> took one of
  five connections and leaves four.
\<close>

theorem lost_connection_not_released:
  "fst (get_connection env_lost ready) = Inr ()
   \<and> DB_POOL ready = Some 5
   \<and> DB_POOL (snd (insert_data env_lost ''rover_A'' ''24.5'' ''roverCommsLog/rover_A'' ready)) = Some 4
   \<and> calls (snd (insert_data env_lost ''rover_A'' ''24.5'' ''roverCommsLog/rover_A'' ready)) =
       [Get_connection, Cursor,
        Execute ''mqtt_data_log'' (''rover_A'', ''24.5'', ''roverCommsLog/rover_A''),
        Rollback, Is_connected]"
  by (simp add: run_defs env_ok_def env_lost_def ready_def)

subsection \<open>A failed insert\<close>




text \<open>
  For the record: the server's text for a missing table names the table with its
  database (\<^verbatim>\<open>Table 'SITH.mqtt_data_log' doesn't exist\<close>), which the test for
  \<^verbatim>\<open>'mqtt_data_log' doesn't exist\<close> does not match.
\<close>

lemma missing_table_text_not_matched:
  "\<not> schema_missing (''1146 (42S02): Table '' @ quoted ''SITH.mqtt_data_log''
        @ '' doesn'' @ [CHR 0x27] @ ''t exist'')"
  by (simp add: schema_missing_def quoted_def TARGET_DB_TABLE_def)

subsection \<open>Failure to create the pool\<close>

text \<open>
  Claim C8. If creating the pool raises, the process logs the error and ends with exit
  status 1. Up to then it has made one library call, the attempt to create the pool: no
  MQTT client is constructed, no connection to the broker is attempted, the loop is not
  entered, and no message is handled.
\<close>

theorem pool_failure_exits:
  assumes "create_pool_err env = Some e"
  shows "main g env s =
      (Inl (SystemExit 1),
       s\<lparr>logged := logged s @
            [(INFO, ''MQTT Subscriber service started.''),
             (INFO, ''Setting up DB connection pool for '' @ DB_USER g @ ''@'' @ DB_HOST g
                    @ ''/'' @ DB_NAME g @ ''...''),
             (ERROR, ''Error setting up DB connection pool: '' @ str_e e)],
         calls := calls s @ [Pool_create (DB_HOST g) (DB_NAME g) (DB_USER g) (DB_PASS g)]\<rparr>)
     \<and> exit_status (fst (main g env s)) = 1
     \<and> (load_globals unicode_int environ = Inr g \<longrightarrow>
          program unicode_int environ env tbl =
            (Inl (SystemExit 1),
             \<lparr>DB_POOL = None,
              logged =
                [(INFO, ''MQTT Subscriber service started.''),
                 (INFO, ''Setting up DB connection pool for '' @ DB_USER g @ ''@'' @ DB_HOST g
                        @ ''/'' @ DB_NAME g @ ''...''),
                 (ERROR, ''Error setting up DB connection pool: '' @ str_e e)],
              table = tbl,
              calls = [Pool_create (DB_HOST g) (DB_NAME g) (DB_USER g) (DB_PASS g)]\<rparr>))"
  using assms
  by (simp add: main_def setup_db_pool_def program_def start_def logger_def called_def Let_def)

text \<open>
  The database is down; the broker would have delivered a message.
\<close>

theorem pool_failure_exits_witness:
  "create_pool_err run_pool_down = Some (PyError ''InterfaceError''
          ''2003: Cannot connect to MySQL server on SITH-MySQL:3306'')
   \<and> load_globals (\<lambda>x. Inl (PyError ''ValueError'' x)) Map.empty = Inr example_globals
   \<and> program (\<lambda>x. Inl (PyError ''ValueError'' x)) Map.empty run_pool_down [] =
       (Inl (SystemExit 1),
        \<lparr>DB_POOL = None,
         logged =
           [(INFO, ''MQTT Subscriber service started.''),
            (INFO, ''Setting up DB connection pool for SITH@SITH-MySQL/SITH...''),
            (ERROR, ''Error setting up DB connection pool: 2003: Cannot connect to MySQL server on SITH-MySQL:3306'')],
         table = [],
         calls = [Pool_create ''SITH-MySQL'' ''SITH'' ''SITH'' ''SITH'']\<rparr>)"
  using pool_failure_exits [of run_pool_down
      "PyError ''InterfaceError'' ''2003: Cannot connect to MySQL server on SITH-MySQL:3306''"
      example_globals "start []" "\<lambda>x. Inl (PyError ''ValueError'' x)" Map.empty "[]"]
  by (simp add: run_pool_down_def load_globals_def getenv_def example_globals_def)

subsection \<open>The prefix is fixed\<close>

text \<open>
  Claim C9. The handler tests the topic against the literal \<^verbatim>\<open>roverCommsLog/\<close> and never
  reads \<^verbatim>\<open>MQTT_TOPIC\<close>: for any two values of \<^verbatim>\<open>MQTT_TOPIC\<close> it returns the same result and
  the same state on the same message, and whatever \<^verbatim>\<open>MQTT_TOPIC\<close> is, it adds a row only
  for a topic that starts with the literal.
\<close>

theorem handler_independent_of_MQTT_TOPIC:
  "on_message (g\<lparr>MQTT_TOPIC := ta\<rparr>) env msg s = on_message (g\<lparr>MQTT_TOPIC := tb\<rparr>) env msg s
   \<and> TOPIC_PREFIX = ''roverCommsLog/''
   \<and> (table (snd (on_message (g\<lparr>MQTT_TOPIC := ta\<rparr>) env msg s)) \<noteq> table s
        \<longrightarrow> prefix ''roverCommsLog/'' (topic msg))"
proof (intro conjI impI)
  show "on_message (g\<lparr>MQTT_TOPIC := ta\<rparr>) env msg s = on_message (g\<lparr>MQTT_TOPIC := tb\<rparr>) env msg s"
    by (simp add: on_message_def)
  show "TOPIC_PREFIX = ''roverCommsLog/''" by (simp add: TOPIC_PREFIX_def)
  assume a: "table (snd (on_message (g\<lparr>MQTT_TOPIC := ta\<rparr>) env msg s)) \<noteq> table s"
  show "prefix ''roverCommsLog/'' (topic msg)"
  proof (rule ccontr)
    assume "\<not> prefix ''roverCommsLog/'' (topic msg)"
    then have "\<not> prefix TOPIC_PREFIX (topic msg)" by (simp add: TOPIC_PREFIX_def)
    then have "table (snd (on_message (g\<lparr>MQTT_TOPIC := ta\<rparr>) env msg s)) = table s"
      by (simp add: on_message_def)
    with a show False by simp
  qed
qed

text \<open>
  Subscribed to \<^verbatim>\<open>sensors/#\<close>, a message on \<^verbatim>\<open>sensors/rover_A\<close> is skipped.
\<close>

theorem handler_independent_of_MQTT_TOPIC_witness:
  "on_message (example_globals\<lparr>MQTT_TOPIC := ''sensors/#''\<rparr>) env_ok
      \<lparr>topic = ''sensors/rover_A'', payload = ''24.5''\<rparr> ready =
     on_message (example_globals\<lparr>MQTT_TOPIC := ''roverCommsLog/#''\<rparr>) env_ok
      \<lparr>topic = ''sensors/rover_A'', payload = ''24.5''\<rparr> ready
   \<and> on_message (example_globals\<lparr>MQTT_TOPIC := ''sensors/#''\<rparr>) env_ok
      \<lparr>topic = ''sensors/rover_A'', payload = ''24.5''\<rparr> ready =
     (Inr (),
      \<lparr>DB_POOL = Some 5,
       logged = [(DEBUG, ''Skipping non-matching topic: sensors/rover_A'')],
       table = [], calls = []\<rparr>)"
  using handler_independent_of_MQTT_TOPIC [where g = example_globals and ta = "''sensors/#''"
      and tb = "''roverCommsLog/#''" and env = env_ok and s = ready
      and msg = "\<lparr>topic = ''sensors/rover_A'', payload = ''24.5''\<rparr>"]
  by (simp add: run_defs ready_def)

subsection \<open>The port number\<close>

text \<open>
  Claim C10. If \<^verbatim>\<open>MQTT_PORT\<close> is set to a text on which \<^verbatim>\<open>int\<close> raises, the exception is
  raised by the assignment at the top of the module and is not caught: the process ends
  with exit status 1 before anything is logged, before the pool is created and before
  the broker is contacted.
\<close>

theorem invalid_port_fails_at_startup:
  assumes "environ ''MQTT_PORT'' = Some x" and "py_int unicode_int x = Inl e"
  shows "program unicode_int environ env tbl =
           (Inl (Error e), \<lparr>DB_POOL = None, logged = [], table = tbl, calls = []\<rparr>)
       \<and> exit_status (fst (program unicode_int environ env tbl)) = 1"
  using assms by (simp add: program_def load_globals_def start_def Let_def)

text \<open>
  \<^verbatim>\<open>MQTT_PORT="18 83"\<close>.
\<close>

theorem invalid_port_fails_at_startup_witness:
  "[''MQTT_PORT'' \<mapsto> ''18 83''] ''MQTT_PORT'' = Some ''18 83''
   \<and> py_int (\<lambda>x. Inl (PyError ''ValueError'' x)) ''18 83'' =
       Inl (PyError ''ValueError'' (''invalid literal for int() with base 10: '' @ quoted ''18 83''))
   \<and> program (\<lambda>x. Inl (PyError ''ValueError'' x)) [''MQTT_PORT'' \<mapsto> ''18 83''] run_ok [] =
       (Inl (Error (PyError ''ValueError''
          (''invalid literal for int() with base 10: '' @ quoted ''18 83''))),
        \<lparr>DB_POOL = None, logged = [], table = [], calls = []\<rparr>)"
  using invalid_port_fails_at_startup [of "[''MQTT_PORT'' \<mapsto> ''18 83'']" "''18 83''"
      "\<lambda>x. Inl (PyError ''ValueError'' x)"
      "PyError ''ValueError'' (''invalid literal for int() with base 10: '' @ quoted ''18 83'')"
      run_ok "[]"]
  by (simp add: py_int_def strip_def is_space_def is_digit_def quoted_def Let_def)

text \<open>
  For comparison, a run with \<^verbatim>\<open>MQTT_PORT=" 1_884 "\<close>, which \<^verbatim>\<open>int\<close> accepts.
\<close>

lemma valid_port_starts:
  "program (\<lambda>x. Inl (PyError ''ValueError'' x)) [''MQTT_PORT'' \<mapsto> '' 1_884 ''] run_ok [] =
     (Inr (),
      \<lparr>DB_POOL = Some 5,
       logged =
         [(INFO, ''MQTT Subscriber service started.''),
          (INFO, ''Setting up DB connection pool for SITH@SITH-MySQL/SITH...''),
          (INFO, ''Database connection pool established.''),
          (INFO, ''Awaiting MQTT messages...''),
          (INFO, ''Connected to MQTT Broker successfully.''),
          (INFO, ''Subscribed to topic: roverCommsLog/#''),
          (DEBUG, ''Inserted: ID=rover_A, Value=24.5 from topic roverCommsLog/rover_A'')],
       table = [(''rover_A'', ''24.5'', ''roverCommsLog/rover_A'', 7)],
       calls =
         [Pool_create ''SITH-MySQL'' ''SITH'' ''SITH'' ''SITH'', Mqtt_Client,
          Mqtt_connect ''SITH-MQTT-Broker'' 1884 60, Loop_forever,
          Subscribe ''roverCommsLog/#'', Get_connection, Cursor,
          Execute ''mqtt_data_log'' (''rover_A'', ''24.5'', ''roverCommsLog/rover_A''),
          Commit, Is_connected, Cursor_close, Conn_close]\<rparr>)"
  by (simp add: program_def load_globals_def py_int_def strip_def is_space_def is_digit_def
      digits_value_def getenv_def start_def main_def main_try_def setup_db_pool_def on_connect_def
      run_ok_def run_defs env_ok_def)

end
